theory Spec2Isabelle
  imports
    Main
    "HOL-Library.Char_ord"
    "HOL-Library.List_Lexorder"
    "HOL-Library.Product_Lexorder"
    "HOL-Library.Multiset"
    "HOL-Library.Sublist"
begin

section \<open>The ESPN scoreboard provider (providers/ESPN.js)\<close>

text \<open>
  The provider builds a request URL for a league and a day, and turns the decoded JSON
  feed into the list of games the front end shows. This theory embeds the functions of
  \<^verbatim>\<open>providers/ESPN.js\<close>: \<^verbatim>\<open>getLeaguePath\<close>, the URL of \<^verbatim>\<open>getScores\<close>,
  \<^verbatim>\<open>formatScores\<close>, \<^verbatim>\<open>getOrdinal\<close>, \<^verbatim>\<open>getPeriod\<close> and \<^verbatim>\<open>getFinalOT\<close>.

  Conventions of the embedding:
  \<^item> JavaScript strings are \<open>string\<close>; \<open><\<close> on strings is the lexicographic order on
    character codes, as JavaScript's \<open><\<close> on two strings is.
  \<^item> A period number is an \<open>int\<close>. \<^verbatim>\<open>%\<close> is JavaScript's remainder, whose sign follows
    the dividend.
  \<^item> \<^verbatim>\<open>moment(x)\<close> of a game's date is the instant it denotes, an \<open>int\<close> (milliseconds
    since the epoch); \<^verbatim>\<open>isBefore\<close> and \<^verbatim>\<open>isAfter\<close> compare instants. Dates that moment
    cannot parse are outside the model.
  \<^item> \<^verbatim>\<open>moment(d).tz(localTZ).format("h:mm a")\<close> depends on the time zone that
    \<^verbatim>\<open>moment.tz.guess()\<close> finds in the environment; it is the parameter \<open>localTime\<close>
    of the model.
  \<^item> A game of the feed has \<^verbatim>\<open>competitions[0].competitors[0]\<close> and \<^verbatim>\<open>[1]\<close>; the source
    raises a TypeError on a game without them, and the record type of the model has
    both as fields.
  \<^item> \<^verbatim>\<open>formatScores\<close> writes to its argument \<^verbatim>\<open>data\<close> (it sorts \<^verbatim>\<open>data.events\<close> in place
    when no team filter is given, and it assigns to \<^verbatim>\<open>team.abbreviation\<close>), so the model
    returns the list of formatted games together with \<^verbatim>\<open>data\<close> as the call leaves it.
    \<^verbatim>\<open>data\<close> is a tree, as a JSON decoder returns it: no two places of it hold the same
    object.
\<close>

subsection \<open>JavaScript primitives\<close>

text \<open>
  Number to string, for integers: decimal digits, with a minus sign when negative.
  (JavaScript prints this text for every integer below 10^21 that a number holds
  exactly.)
\<close>

definition digit_char :: "nat \<Rightarrow> char" where
  "digit_char d = ''0123456789'' ! d"

fun string_of_nat :: "nat \<Rightarrow> string" where
  "string_of_nat n =
     (if n < 10 then [digit_char n]
      else string_of_nat (n div 10) @ [digit_char (n mod 10)])"

declare string_of_nat.simps [simp del]

definition string_of_int :: "int \<Rightarrow> string" where
  "string_of_int i =
     (if i < 0 then CHR ''-'' # string_of_nat (nat (- i)) else string_of_nat (nat i))"

text \<open>\<^verbatim>\<open>a % b\<close>: the remainder of the division truncated towards zero.\<close>

definition js_rem :: "int \<Rightarrow> int \<Rightarrow> int" where
  "js_rem a b = sgn a * (\<bar>a\<bar> mod \<bar>b\<bar>)"

text \<open>\<^verbatim>\<open>String.prototype.indexOf\<close>: the first position where the pattern occurs, or -1.\<close>

fun indexOf_from :: "nat \<Rightarrow> string \<Rightarrow> string \<Rightarrow> int" where
  "indexOf_from i [] pat = (if pat = [] then int i else - 1)"
| "indexOf_from i (c # cs) pat =
     (if prefix pat (c # cs) then int i else indexOf_from (Suc i) cs pat)"

definition indexOf :: "string \<Rightarrow> string \<Rightarrow> int" where
  "indexOf s pat = indexOf_from 0 s pat"

text \<open>\<^verbatim>\<open>Array.prototype.indexOf\<close>: the first index holding the value, or -1.\<close>

fun array_indexOf_from :: "nat \<Rightarrow> 'a list \<Rightarrow> 'a \<Rightarrow> int" where
  "array_indexOf_from i [] v = - 1"
| "array_indexOf_from i (x # xs) v =
     (if x = v then int i else array_indexOf_from (Suc i) xs v)"

definition array_indexOf :: "'a list \<Rightarrow> 'a \<Rightarrow> int" where
  "array_indexOf xs v = array_indexOf_from 0 xs v"

text \<open>
  \<^verbatim>\<open>Array.prototype.sort\<close> with a comparison function: a stable sort, written as an
  insertion sort. An element goes before the first element it does not compare
  greater than.
\<close>

fun insert_sorted :: "('a \<Rightarrow> 'a \<Rightarrow> int) \<Rightarrow> 'a \<Rightarrow> 'a list \<Rightarrow> 'a list" where
  "insert_sorted cmp x [] = [x]"
| "insert_sorted cmp x (y # ys) =
     (if cmp x y \<le> 0 then x # y # ys else y # insert_sorted cmp x ys)"

definition array_sort :: "('a \<Rightarrow> 'a \<Rightarrow> int) \<Rightarrow> 'a list \<Rightarrow> 'a list" where
  "array_sort cmp xs = foldr (insert_sorted cmp) xs []"

text \<open>
  \<^verbatim>\<open>parseInt\<close> of a string: leading white space is skipped, a sign is read, then a
  \<^verbatim>\<open>0x\<close> prefix selects base 16; the longest run of digits is the value, and no digit
  at all gives NaN, which is \<open>None\<close> here. Two limits of this model: the value is
  exact, where JavaScript rounds to a double beyond 2^53; and only the ASCII white
  space is skipped, where JavaScript also skips the no-break space and the other
  Unicode spaces. No property below is about the scores.
\<close>

definition is_js_space :: "char \<Rightarrow> bool" where
  "is_js_space c = (c \<in> set [CHR '' '', CHR 0x09, CHR 0x0A, CHR 0x0B, CHR 0x0C, CHR 0x0D])"

definition digit_value :: "char \<Rightarrow> nat option" where
  "digit_value c =
     map_of (zip ''0123456789abcdefABCDEF''
       [0, 1, 2, 3, 4, 5, 6, 7, 8, 9, 10, 11, 12, 13, 14, 15, 10, 11, 12, 13, 14, 15]) c"

definition is_digit_in :: "nat \<Rightarrow> char \<Rightarrow> bool" where
  "is_digit_in base c = (case digit_value c of None \<Rightarrow> False | Some d \<Rightarrow> d < base)"

definition digits_value :: "nat \<Rightarrow> string \<Rightarrow> nat" where
  "digits_value base ds = foldl (\<lambda>acc c. acc * base + the (digit_value c)) 0 ds"

definition parse_digits :: "nat \<Rightarrow> string \<Rightarrow> nat option" where
  "parse_digits base s =
     (let ds = takeWhile (is_digit_in base) s
      in if ds = [] then None else Some (digits_value base ds))"

definition parseInt :: "string \<Rightarrow> int option" where
  "parseInt s =
     (let t = dropWhile is_js_space s;
          neg = (case t of c # _ \<Rightarrow> c = CHR ''-'' | [] \<Rightarrow> False);
          u = (case t of c # cs \<Rightarrow> if c = CHR ''-'' \<or> c = CHR ''+'' then cs else t | [] \<Rightarrow> t);
          mag = (if prefix ''0x'' u \<or> prefix ''0X'' u then parse_digits 16 (drop 2 u)
                 else parse_digits 10 u)
      in map_option (\<lambda>m. if neg then - int m else int m) mag)"

subsection \<open>The request\<close>

definition getLeaguePath :: "string \<Rightarrow> string option" where
  "getLeaguePath league =
     (if league = ''NCAAF'' then Some ''football/college-football''
      else if league = ''NBA'' then Some ''basketball/nba''
      else if league = ''NCAAM'' then Some ''basketball/mens-college-basketball''
      else None)"

text \<open>String concatenation converts \<^verbatim>\<open>null\<close> to the text \<^verbatim>\<open>null\<close>.\<close>

definition concat_operand :: "string option \<Rightarrow> string" where
  "concat_operand v = (case v of None \<Rightarrow> ''null'' | Some s \<Rightarrow> s)"

record request =
  url :: string
  "method" :: string

text \<open>
  The request \<^verbatim>\<open>getScores\<close> issues. Its second argument is
  \<^verbatim>\<open>moment(gameDate).format("YYYYMMDD")\<close>. Nothing between the entry of \<^verbatim>\<open>getScores\<close>
  and the call of \<^verbatim>\<open>request\<close> tests the league path or throws, so the result is always
  a request.
\<close>

definition getScores_request :: "string \<Rightarrow> string \<Rightarrow> request" where
  "getScores_request league yyyymmdd =
     \<lparr> url = ''http://site.api.espn.com/apis/site/v2/sports/'' @
             concat_operand (getLeaguePath league) @
             ''/scoreboard?dates='' @ yyyymmdd @ ''&limit=200'', method = ''GET'' \<rparr>"

subsection \<open>Period labels\<close>

definition getOrdinal :: "int \<Rightarrow> string" where
  "getOrdinal p =
     (let mod10 = js_rem p 10; mod100 = js_rem p 100
      in if mod10 = 1 \<and> mod100 \<noteq> 11 then string_of_int p @ ''<sup>ST</sup>''
         else if mod10 = 2 \<and> mod100 \<noteq> 12 then string_of_int p @ ''<sup>ND</sup>''
         else if mod10 = 3 \<and> mod100 \<noteq> 13 then string_of_int p @ ''<sup>RD</sup>''
         else string_of_int p @ ''<sup>TH</sup>'')"

definition getPeriod :: "string \<Rightarrow> int \<Rightarrow> string" where
  "getPeriod league p =
     (if league = ''NCAAF'' \<or> league = ''NCAAM'' \<or> league = ''NBA'' then
        (if p = 5 then ''OT''
         else if p > 5 then string_of_int (p - 4) @ ''OT''
         else getOrdinal p)
      else getOrdinal p)"

definition getFinalOT :: "string \<Rightarrow> int \<Rightarrow> string" where
  "getFinalOT league p =
     (if league = ''NCAAF'' \<or> league = ''NCAAM'' \<or> league = ''NBA'' then
        (if p = 5 then '' (OT)''
         else if p > 5 then '' ('' @ string_of_int (p - 4) @ ''OT)''
         else '''')
      else '''')"

subsection \<open>The feed and the formatted game\<close>

record team =
  "abbreviation" :: string
  location :: string
  shortDisplayName :: string

record competitor =
  homeAway :: string
  team :: team
  score :: string

text \<open>\<^verbatim>\<open>game.status\<close>: \<open>type_id\<close> is \<^verbatim>\<open>status.type.id\<close>.\<close>

record gameStatus =
  type_id :: string
  period :: int
  displayClock :: string

text \<open>
  A game of \<^verbatim>\<open>data.events\<close>: \<open>date\<close> is \<^verbatim>\<open>competitions[0].date\<close>, \<open>competitor0\<close> and
  \<open>competitor1\<close> are \<^verbatim>\<open>competitions[0].competitors[0]\<close> and \<^verbatim>\<open>[1]\<close>, \<open>rawStatus\<close> is
  \<^verbatim>\<open>game.status\<close>.
\<close>

record game =
  date :: int
  competitor0 :: competitor
  competitor1 :: competitor
  rawStatus :: gameStatus

record scoreboard =
  events :: "game list"

text \<open>
  The object pushed onto \<^verbatim>\<open>formattedGamesList\<close>. \<open>gameMode\<close> is 0 for a game that has
  not started, 1 for a game in progress and 2 for a final score.
\<close>

record formattedGame =
  classes :: "string list"
  gameMode :: nat
  hTeam :: string
  vTeam :: string
  hTeamLong :: string
  vTeamLong :: string
  hScore :: "int option"
  vScore :: "int option"
  status :: "string list"
  usePngLogos :: bool

subsection \<open>formatScores: filter and sort\<close>

text \<open>The predicate of \<^verbatim>\<open>data.events.filter\<close>.\<close>

definition teamsInclude :: "string list \<Rightarrow> game \<Rightarrow> bool" where
  "teamsInclude teams g =
     (array_indexOf teams (abbreviation (team (competitor0 g))) \<noteq> - 1 \<or>
      array_indexOf teams (abbreviation (team (competitor1 g))) \<noteq> - 1)"

text \<open>\<^verbatim>\<open>filteredGamesList\<close> before it is sorted; \<open>None\<close> is \<^verbatim>\<open>teams == null\<close>.\<close>

definition filteredGamesList :: "scoreboard \<Rightarrow> string list option \<Rightarrow> game list" where
  "filteredGamesList data teams =
     (case teams of
        Some ts \<Rightarrow> filter (teamsInclude ts) (events data)
      | None \<Rightarrow> events data)"

text \<open>\<^verbatim>\<open>aTteam\<close>, \<^verbatim>\<open>bTteam\<close> of the comparison function: the short code of the away team.\<close>

definition awayTeamCode :: "game \<Rightarrow> string" where
  "awayTeamCode g =
     (if homeAway (competitor0 g) = ''away''
      then abbreviation (team (competitor0 g))
      else abbreviation (team (competitor1 g)))"

text \<open>The comparison function given to \<^verbatim>\<open>sort\<close>.\<close>

definition compareGames :: "game \<Rightarrow> game \<Rightarrow> int" where
  "compareGames a b =
     (if date a < date b then - 1
      else if date a > date b then 1
      else if awayTeamCode a < awayTeamCode b then - 1
      else if awayTeamCode a > awayTeamCode b then 1
      else 0)"

text \<open>\<^verbatim>\<open>filteredGamesList\<close> after \<^verbatim>\<open>filteredGamesList.sort(...)\<close>.\<close>

definition sortedGamesList :: "scoreboard \<Rightarrow> string list option \<Rightarrow> game list" where
  "sortedGamesList data teams = array_sort compareGames (filteredGamesList data teams)"

subsection \<open>formatScores: one game\<close>

text \<open>
  The \<^verbatim>\<open>switch\<close> on \<^verbatim>\<open>game.status.type.id\<close>: the values of \<^verbatim>\<open>gameState\<close>, \<^verbatim>\<open>status\<close> and
  \<^verbatim>\<open>classes\<close> after it. In the branch of "7" and "17" the statement
  \<^verbatim>\<open>classes.push["delay"];\<close> reads a property of the function \<^verbatim>\<open>classes.push\<close> and
  calls nothing: \<^verbatim>\<open>classes\<close> stays empty.
\<close>

definition statusSwitch ::
  "(int \<Rightarrow> string) \<Rightarrow> string \<Rightarrow> game \<Rightarrow> nat \<times> string list \<times> string list" where
  "statusSwitch localTime league g =
     (let i = type_id (rawStatus g); st = rawStatus g
      in if i = ''0'' then (0, [''TBD''], [])
         else if i = ''1'' then (0, [localTime (date g)], [])
         else if i = ''2'' \<or> i = ''21'' \<or> i = ''24'' then
           (1, [displayClock st, getPeriod league (period st)], [])
         else if i = ''3'' then (2, [''Final'' @ getFinalOT league (period st)], [])
         else if i = ''4'' \<or> i = ''9'' \<or> i = ''10'' then (0, [''Forfeit''], [])
         else if i = ''5'' then (0, [''Cancelled''], [])
         else if i = ''6'' then (0, [''Postponed''], [])
         else if i = ''7'' \<or> i = ''17'' then (1, [''Delay''], [])
         else if i = ''8'' then (0, [''Suspended''], [])
         else if i = ''22'' then (1, [''END'', getPeriod league (period st)], [])
         else if i = ''23'' then (1, [''HALFTIME''], [])
         else (0, [localTime (date g)], []))"

text \<open>The condition of the abbreviation override, for one competitor.\<close>

definition isFcsSDSU :: "string \<Rightarrow> competitor \<Rightarrow> bool" where
  "isFcsSDSU league c =
     (league = ''NCAAF'' \<and> abbreviation (team c) = ''SDSU'' \<and>
      indexOf (location (team c)) ''South Dakota State'' \<noteq> - 1)"

definition setAbbreviation :: "string \<Rightarrow> competitor \<Rightarrow> competitor" where
  "setAbbreviation a c = c\<lparr>team := (team c)\<lparr>abbreviation := a\<rparr>\<rparr>"

text \<open>
  The \<^verbatim>\<open>if ... else if\<close> that assigns \<^verbatim>\<open>"SDSU "\<close>: \<^verbatim>\<open>hTeamData\<close> and \<^verbatim>\<open>vTeamData\<close> after it.
\<close>

definition overrideSDSU :: "string \<Rightarrow> competitor \<Rightarrow> competitor \<Rightarrow> competitor \<times> competitor" where
  "overrideSDSU league h v =
     (if isFcsSDSU league h then (setAbbreviation ''SDSU '' h, v)
      else if isFcsSDSU league v then (h, setAbbreviation ''SDSU '' v)
      else (h, v))"

definition longName :: "string \<Rightarrow> competitor \<Rightarrow> string" where
  "longName league c =
     (if league = ''NCAAF'' \<or> league = ''NCAAM'' then abbreviation (team c) @ '' '' else []) @
     shortDisplayName (team c)"

text \<open>
  \<^verbatim>\<open>hTeamData\<close> and \<^verbatim>\<open>vTeamData\<close> before the override: the first competitor is the
  home team unless its flag is \<^verbatim>\<open>"away"\<close>.
\<close>

definition hTeamData :: "game \<Rightarrow> competitor" where
  "hTeamData g =
     (if homeAway (competitor0 g) = ''away'' then competitor1 g else competitor0 g)"

definition vTeamData :: "game \<Rightarrow> competitor" where
  "vTeamData g =
     (if homeAway (competitor0 g) = ''away'' then competitor0 g else competitor1 g)"

text \<open>
  The body of \<^verbatim>\<open>filteredGamesList.forEach\<close>: the object it pushes, and the game as the
  assignment to \<^verbatim>\<open>team.abbreviation\<close> leaves it.
\<close>

definition formatGame :: "(int \<Rightarrow> string) \<Rightarrow> string \<Rightarrow> game \<Rightarrow> formattedGame \<times> game" where
  "formatGame localTime league g =
     (let (gameState, statusList, classList) = statusSwitch localTime league g;
          (h, v) = overrideSDSU league (hTeamData g) (vTeamData g)
      in (\<lparr> classes = classList,
            gameMode = gameState,
            hTeam = abbreviation (team h),
            vTeam = abbreviation (team v),
            hTeamLong = longName league h,
            vTeamLong = longName league v,
            hScore = parseInt (score h),
            vScore = parseInt (score v),
            status = statusList,
            usePngLogos = True \<rparr>,
          if homeAway (competitor0 g) = ''away''
          then g\<lparr>competitor0 := v, competitor1 := h\<rparr>
          else g\<lparr>competitor0 := h, competitor1 := v\<rparr>))"

subsection \<open>formatScores\<close>

text \<open>
  The result is the returned \<^verbatim>\<open>formattedGamesList\<close> and \<^verbatim>\<open>data\<close> after the call. With a
  team filter, \<^verbatim>\<open>filter\<close> makes a new array, so \<^verbatim>\<open>data.events\<close> keeps its order and only
  the games that pass the filter are written to; without one, \<^verbatim>\<open>filteredGamesList\<close> is
  \<^verbatim>\<open>data.events\<close> itself and the sort reorders it.
\<close>

definition formatScores ::
  "(int \<Rightarrow> string) \<Rightarrow> string \<Rightarrow> scoreboard \<Rightarrow> string list option \<Rightarrow>
   formattedGame list \<times> scoreboard" where
  "formatScores localTime league data teams =
     (let formattedGamesList =
            map (\<lambda>g. fst (formatGame localTime league g)) (sortedGamesList data teams)
      in case teams of
           Some ts \<Rightarrow>
             (formattedGamesList,
              data\<lparr>events :=
                map (\<lambda>g. if teamsInclude ts g then snd (formatGame localTime league g) else g)
                  (events data)\<rparr>)
         | None \<Rightarrow>
             (formattedGamesList,
              data\<lparr>events :=
                map (\<lambda>g. snd (formatGame localTime league g)) (sortedGamesList data teams)\<rparr>))"

subsection \<open>A time zone and some competitors, for evaluation\<close>

text \<open>The format \<^verbatim>\<open>h:mm a\<close> in the zone UTC, of an instant in milliseconds.\<close>

definition two_digits :: "nat \<Rightarrow> string" where
  "two_digits n = [digit_char (n div 10), digit_char (n mod 10)]"

definition utcTime :: "int \<Rightarrow> string" where
  "utcTime t =
     (let m = nat ((t div 60000) mod 1440); h = m div 60;
          h12 = (if h mod 12 = 0 then 12 else h mod 12)
      in string_of_nat h12 @ '':'' @ two_digits (m mod 60) @
         (if h < 12 then '' am'' else '' pm''))"

definition mkCompetitor :: "string \<Rightarrow> string \<Rightarrow> string \<Rightarrow> string \<Rightarrow> string \<Rightarrow> competitor" where
  "mkCompetitor flag abbr loc short sc =
     \<lparr> homeAway = flag,
       team = \<lparr> abbreviation = abbr, location = loc, shortDisplayName = short \<rparr>,
       score = sc \<rparr>"

definition mkGame :: "int \<Rightarrow> competitor \<Rightarrow> competitor \<Rightarrow> string \<Rightarrow> int \<Rightarrow> string \<Rightarrow> game" where
  "mkGame d c0 c1 i p clock =
     \<lparr> date = d, competitor0 = c0, competitor1 = c1,
       rawStatus = \<lparr> type_id = i, period = p, displayClock = clock \<rparr> \<rparr>"

definition jackrabbits :: "string \<Rightarrow> competitor" where
  "jackrabbits flag = mkCompetitor flag ''SDSU'' ''South Dakota State'' ''S Dakota St'' ''24''"

definition aztecs :: "string \<Rightarrow> competitor" where
  "aztecs flag = mkCompetitor flag ''SDSU'' ''San Diego State'' ''San Diego St'' ''17''"

definition bison :: "string \<Rightarrow> competitor" where
  "bison flag = mkCompetitor flag ''NDSU'' ''North Dakota State'' ''N Dakota St'' ''21''"

definition lakers :: "string \<Rightarrow> competitor" where
  "lakers flag = mkCompetitor flag ''LAL'' ''Los Angeles'' ''Lakers'' ''101''"

definition celtics :: "string \<Rightarrow> competitor" where
  "celtics flag = mkCompetitor flag ''BOS'' ''Boston'' ''Celtics'' ''99''"

definition sdsuBothSides :: game where
  "sdsuBothSides = mkGame 1541271600000 (jackrabbits ''home'') (jackrabbits ''away'') ''3'' 4 ''0:00''"

definition bisonAtJackrabbits :: game where
  "bisonAtJackrabbits = mkGame 1541271600000 (bison ''away'') (jackrabbits ''home'') ''3'' 4 ''0:00''"

definition jackrabbitsHostBison :: game where
  "jackrabbitsHostBison = mkGame 1541271600000 (jackrabbits ''home'') (bison ''away'') ''3'' 4 ''0:00''"

definition celticsAtLakers :: "string \<Rightarrow> int \<Rightarrow> game" where
  "celticsAtLakers i p = mkGame 1541271600000 (celtics ''away'') (lakers ''home'') i p ''4:31''"

definition lakersAtCeltics :: "string \<Rightarrow> int \<Rightarrow> game" where
  "lakersAtCeltics i p = mkGame 1541262600000 (celtics ''home'') (lakers ''away'') i p ''0:00''"

definition jackrabbitsAtBison :: game where
  "jackrabbitsAtBison = mkGame 1541271600000 (bison ''home'') (jackrabbits ''away'') ''1'' 0 ''0:00''"

definition aztecsAtBison :: game where
  "aztecsAtBison = mkGame 1541271600000 (bison ''home'') (aztecs ''away'') ''1'' 0 ''0:00''"



subsection \<open>Notions used to state the properties\<close>

text \<open>
  The pair a list sorted by \<open>compareGames\<close> is ordered by: the start time, then the
  short code of the away team.
\<close>

definition sortKey :: "game \<Rightarrow> int \<times> string" where
  "sortKey g = (date g, awayTeamCode g)"

text \<open>Some competitor of the feed meets the condition of the abbreviation override.\<close>

definition sdsuOverrideApplies :: "string \<Rightarrow> scoreboard \<Rightarrow> bool" where
  "sdsuOverrideApplies league data =
     list_ex (\<lambda>g. isFcsSDSU league (competitor0 g) \<or> isFcsSDSU league (competitor1 g))
       (events data)"

text \<open>
  The ordinal suffix in the words of the specification, where \<open>mod\<close> is the
  mathematical one: 1 but not 11 gives "st", 2 but not 12 gives "nd", 3 but not 13
  gives "rd", anything else "th".
\<close>

definition spec_ordinal_suffix :: "int \<Rightarrow> string" where
  "spec_ordinal_suffix n =
     (if n mod 10 = 1 \<and> n mod 100 \<noteq> 11 then ''st''
      else if n mod 10 = 2 \<and> n mod 100 \<noteq> 12 then ''nd''
      else if n mod 10 = 3 \<and> n mod 100 \<noteq> 13 then ''rd''
      else ''th'')"

text \<open>Lower case of a letter, to compare suffixes without regard to case.\<close>

definition lower_char :: "char \<Rightarrow> char" where
  "lower_char c =
     (case map_of (zip ''ABCDEFGHIJKLMNOPQRSTUVWXYZ'' ''abcdefghijklmnopqrstuvwxyz'') c of
        Some d \<Rightarrow> d
      | None \<Rightarrow> c)"

section \<open>Properties\<close>

subsection \<open>Evaluation\<close>

lemmas js_eval =
  string_of_int_def string_of_nat.simps digit_char_def js_rem_def indexOf_def array_indexOf_def

lemmas game_eval =
  formatGame_def statusSwitch_def overrideSDSU_def isFcsSDSU_def setAbbreviation_def
  longName_def hTeamData_def vTeamData_def getPeriod_def getFinalOT_def getOrdinal_def

lemmas list_eval =
  formatScores_def sortedGamesList_def filteredGamesList_def teamsInclude_def array_sort_def
  compareGames_def awayTeamCode_def

lemma parseInt_examples:
  "parseInt ''24'' = Some 24" "parseInt '' -7pts'' = Some (- 7)" "parseInt ''0x1F'' = Some 31"
  "parseInt [] = None" "parseInt ''n/a'' = None"
  by (simp_all add: parseInt_def parse_digits_def digits_value_def is_digit_in_def
      digit_value_def is_js_space_def)

lemma utcTime_examples:
  "utcTime 1541271600000 = ''7:00 pm''" "utcTime 0 = ''12:00 am''"
  by (simp_all add: utcTime_def two_digits_def js_eval)

subsection \<open>Substrings\<close>

text \<open>\<open>indexOf\<close> finds the pattern exactly when it is a contiguous part of the string.\<close>

lemma indexOf_from_found: "indexOf_from i s pat \<noteq> - 1 \<longleftrightarrow> sublist pat s"
proof (induction s arbitrary: i)
  case Nil
  then show ?case by simp
next
  case (Cons c cs)
  then show ?case by (simp add: sublist_Cons_right)
qed

lemma indexOf_found: "indexOf s pat \<noteq> - 1 \<longleftrightarrow> sublist pat s"
  by (simp add: indexOf_def indexOf_from_found)

lemma isFcsSDSU_iff:
  "isFcsSDSU league c \<longleftrightarrow>
     league = ''NCAAF'' \<and> abbreviation (team c) = ''SDSU'' \<and>
     sublist ''South Dakota State'' (location (team c))"
  by (simp add: isFcsSDSU_def indexOf_found)

subsection \<open>Membership and the filter\<close>

lemma array_indexOf_from_found: "array_indexOf_from i xs v \<noteq> - 1 \<longleftrightarrow> v \<in> set xs"
proof (induction xs arbitrary: i)
  case Nil
  then show ?case by simp
next
  case (Cons x xs)
  then show ?case by auto
qed

lemma array_indexOf_found: "array_indexOf xs v \<noteq> - 1 \<longleftrightarrow> v \<in> set xs"
  by (simp add: array_indexOf_def array_indexOf_from_found)

lemma teamsInclude_iff:
  "teamsInclude ts g \<longleftrightarrow>
     abbreviation (team (competitor0 g)) \<in> set ts \<or>
     abbreviation (team (competitor1 g)) \<in> set ts"
  by (simp add: teamsInclude_def array_indexOf_found)

subsection \<open>The sort\<close>

lemma compareGames_le_iff: "compareGames a b \<le> 0 \<longleftrightarrow> sortKey a \<le> sortKey b"
  by (auto simp: compareGames_def sortKey_def)

lemma insert_sorted_insort: "insert_sorted compareGames x ys = insort_key sortKey x ys"
  by (induction ys) (simp_all add: compareGames_le_iff)

lemma array_sort_sort_key: "array_sort compareGames xs = sort_key sortKey xs"
proof -
  have "insert_sorted compareGames = insort_key sortKey"
    by (intro ext) (rule insert_sorted_insort)
  then show ?thesis by (simp add: array_sort_def sort_key_def)
qed

lemma sortKey_le_iff:
  "sortKey a \<le> sortKey b \<longleftrightarrow>
     date a < date b \<or> (date a = date b \<and> awayTeamCode a \<le> awayTeamCode b)"
  by (auto simp: sortKey_def)

lemma sorted_array_sort:
  "sorted_wrt
     (\<lambda>a b. date a < date b \<or> (date a = date b \<and> awayTeamCode a \<le> awayTeamCode b))
     (array_sort compareGames xs)"
proof -
  have "sorted (map sortKey (sort_key sortKey xs))" by (rule sorted_sort_key)
  then show ?thesis
    by (simp add: sorted_map array_sort_sort_key sortKey_le_iff)
qed

lemma mset_array_sort: "mset (array_sort compareGames xs) = mset xs"
  by (simp add: array_sort_sort_key)

lemma set_array_sort: "set (array_sort compareGames xs) = set xs"
  by (simp add: array_sort_sort_key)

lemma array_sort_idem:
  "array_sort compareGames (array_sort compareGames xs) = array_sort compareGames xs"
  by (simp add: array_sort_sort_key sort_key_id_if_sorted)

subsection \<open>The loop\<close>

lemma fst_formatScores:
  "fst (formatScores lt league data teams) =
     map (\<lambda>g. fst (formatGame lt league g)) (sortedGamesList data teams)"
  by (simp add: formatScores_def Let_def split: option.split)

lemma formatGame_status:
  "status (fst (formatGame lt league g)) = fst (snd (statusSwitch lt league g))"
  by (simp add: formatGame_def split: prod.split)

lemma formatGame_gameMode:
  "gameMode (fst (formatGame lt league g)) = fst (statusSwitch lt league g)"
  by (simp add: formatGame_def split: prod.split)

lemma formatGame_classes:
  "classes (fst (formatGame lt league g)) = snd (snd (statusSwitch lt league g))"
  by (simp add: formatGame_def split: prod.split)

lemma formatGame_hTeam:
  "hTeam (fst (formatGame lt league g)) =
     abbreviation (team (fst (overrideSDSU league (hTeamData g) (vTeamData g))))"
  by (simp add: formatGame_def split: prod.split)

lemma formatGame_vTeam:
  "vTeam (fst (formatGame lt league g)) =
     abbreviation (team (snd (overrideSDSU league (hTeamData g) (vTeamData g))))"
  by (simp add: formatGame_def split: prod.split)

lemma overrideSDSU_home:
  "abbreviation (team (fst (overrideSDSU league h v))) =
     (if isFcsSDSU league h then ''SDSU '' else abbreviation (team h))"
  by (simp add: overrideSDSU_def setAbbreviation_def)

lemma overrideSDSU_visitor:
  "abbreviation (team (snd (overrideSDSU league h v))) =
     (if \<not> isFcsSDSU league h \<and> isFcsSDSU league v then ''SDSU '' else abbreviation (team v))"
  by (simp add: overrideSDSU_def setAbbreviation_def)

lemma formatGame_unchanged:
  assumes "\<not> isFcsSDSU league (competitor0 g)" and "\<not> isFcsSDSU league (competitor1 g)"
  shows "snd (formatGame lt league g) = g"
  using assms
  by (simp add: formatGame_def overrideSDSU_def hTeamData_def vTeamData_def split: prod.split)

lemma awayTeamCode_visitor: "awayTeamCode g = abbreviation (team (vTeamData g))"
  by (simp add: awayTeamCode_def vTeamData_def)

lemma formatGame_vTeam_unchanged:
  assumes "\<not> isFcsSDSU league (competitor0 g)" and "\<not> isFcsSDSU league (competitor1 g)"
  shows "vTeam (fst (formatGame lt league g)) = abbreviation (team (vTeamData g))"
  using assms by (simp add: formatGame_vTeam overrideSDSU_visitor vTeamData_def)


subsection \<open>The status switch\<close>

lemma statusSwitch_final:
  "type_id (rawStatus g) = ''3'' \<Longrightarrow>
     statusSwitch lt league g = (2, [''Final'' @ getFinalOT league (period (rawStatus g))], [])"
  by (simp add: statusSwitch_def)

lemma statusSwitch_delay:
  "type_id (rawStatus g) = ''7'' \<or> type_id (rawStatus g) = ''17'' \<Longrightarrow>
     statusSwitch lt league g = (1, [''Delay''], [])"
  by (auto simp: statusSwitch_def)

lemma statusSwitch_pushes: "fst (snd (statusSwitch lt league g)) \<noteq> []"
  by (simp add: statusSwitch_def Let_def)

lemma statusSwitch_classes_empty: "snd (snd (statusSwitch lt league g)) = []"
  by (simp add: statusSwitch_def Let_def)

text \<open>
  C2. A game whose status id is "7" or "17" is emitted with game state 1 (in progress)
  and the single status text "Delay", but the tag "delay" is not in its list of
  classes: the list is empty. Here at a delayed NBA game.
\<close>

theorem delay_tag_not_pushed:
  "gameMode (fst (formatGame utcTime ''NBA'' (celticsAtLakers ''7'' 2))) = 1 \<and>
   status (fst (formatGame utcTime ''NBA'' (celticsAtLakers ''7'' 2))) = [''Delay''] \<and>
   classes (fst (formatGame utcTime ''NBA'' (celticsAtLakers ''7'' 2))) = [] \<and>
   ''delay'' \<notin> set (classes (fst (formatGame utcTime ''NBA'' (celticsAtLakers ''17'' 2))))"
  by (simp add: formatGame_gameMode formatGame_status formatGame_classes statusSwitch_def
      celticsAtLakers_def mkGame_def)

text \<open>
  C8. A game whose status id is "3" is emitted with game state 2 (final) and the single
  status text "Final" followed by the suffix of \<open>getFinalOT\<close>, for a game alone and for
  every game of the list \<open>formatScores\<close> returns. On NCAAF, NBA and NCAAM the suffix is
  " (OT)" for period 5 and " (" followed by the period minus 4 and "OT)" for a period
  above 5; it is empty for a period of at most 4 and on every other league.
\<close>

theorem final_status:
  "(type_id (rawStatus g) = ''3'' \<longrightarrow>
      gameMode (fst (formatGame lt league g)) = 2 \<and>
      status (fst (formatGame lt league g)) =
        [''Final'' @ getFinalOT league (period (rawStatus g))]) \<and>
   list_all2
     (\<lambda>g f. type_id (rawStatus g) = ''3'' \<longrightarrow>
        gameMode f = 2 \<and> status f = [''Final'' @ getFinalOT league (period (rawStatus g))])
     (sortedGamesList data teams) (fst (formatScores lt league data teams)) \<and>
   (league \<in> {''NCAAF'', ''NBA'', ''NCAAM''} \<longrightarrow> getFinalOT league 5 = '' (OT)'') \<and>
   (league \<in> {''NCAAF'', ''NBA'', ''NCAAM''} \<and> p > 5 \<longrightarrow>
      getFinalOT league p = '' ('' @ string_of_int (p - 4) @ ''OT)'') \<and>
   (p \<le> 4 \<longrightarrow> getFinalOT league p = []) \<and>
   (league \<notin> {''NCAAF'', ''NBA'', ''NCAAM''} \<longrightarrow> getFinalOT league p = [])"
proof -
  have one: "type_id (rawStatus g) = ''3'' \<longrightarrow>
      gameMode (fst (formatGame lt league g)) = 2 \<and>
      status (fst (formatGame lt league g)) =
        [''Final'' @ getFinalOT league (period (rawStatus g))]" for g
    by (simp add: formatGame_gameMode formatGame_status statusSwitch_final)
  have all: "list_all2
     (\<lambda>g f. type_id (rawStatus g) = ''3'' \<longrightarrow>
        gameMode f = 2 \<and> status f = [''Final'' @ getFinalOT league (period (rawStatus g))])
     (sortedGamesList data teams) (fst (formatScores lt league data teams))"
    unfolding fst_formatScores list_all2_map2 using one by (simp add: list_all2_same)
  have ot: "(league \<in> {''NCAAF'', ''NBA'', ''NCAAM''} \<longrightarrow> getFinalOT league 5 = '' (OT)'') \<and>
   (league \<in> {''NCAAF'', ''NBA'', ''NCAAM''} \<and> p > 5 \<longrightarrow>
      getFinalOT league p = '' ('' @ string_of_int (p - 4) @ ''OT)'') \<and>
   (p \<le> 4 \<longrightarrow> getFinalOT league p = []) \<and>
   (league \<notin> {''NCAAF'', ''NBA'', ''NCAAM''} \<longrightarrow> getFinalOT league p = [])"
    by (auto simp: getFinalOT_def)
  from one all ot show ?thesis by blast
qed

theorem final_status_witness:
  "type_id (rawStatus (celticsAtLakers ''3'' 6)) = ''3'' \<and>
   ''NBA'' \<in> {''NCAAF'', ''NBA'', ''NCAAM''} \<and> (6::int) > 5 \<and>
   gameMode (fst (formatGame utcTime ''NBA'' (celticsAtLakers ''3'' 6))) = 2 \<and>
   status (fst (formatGame utcTime ''NBA'' (celticsAtLakers ''3'' 6))) = [''Final (2OT)''] \<and>
   getFinalOT ''NBA'' 6 = '' (2OT)''"
  using final_status [of "celticsAtLakers ''3'' 6" utcTime "''NBA''" "\<lparr>events = []\<rparr>" None 6]
  by (simp add: celticsAtLakers_def mkGame_def js_eval)

text \<open>
  C10. Every emitted game has at least one status text, whatever its status id: for a
  game alone, and for every game of the list \<open>formatScores\<close> returns.
\<close>

theorem status_nonempty:
  "status (fst (formatGame lt league g)) \<noteq> [] \<and>
   (\<forall>f \<in> set (fst (formatScores lt league data teams)). status f \<noteq> [])"
  by (auto simp: fst_formatScores formatGame_status statusSwitch_pushes)

theorem status_nonempty_witness:
  "status (fst (formatGame utcTime ''NBA'' (celticsAtLakers ''99'' 0))) = [''7:00 pm''] \<and>
   map status (fst (formatScores utcTime ''NBA'' \<lparr>events = [celticsAtLakers ''99'' 0]\<rparr> None)) =
     [[''7:00 pm'']] \<and>
   [] \<notin> set (map status
     (fst (formatScores utcTime ''NBA'' \<lparr>events = [celticsAtLakers ''99'' 0]\<rparr> None)))"
  using status_nonempty [of utcTime "''NBA''" "celticsAtLakers ''99'' 0"
      "\<lparr>events = [celticsAtLakers ''99'' 0]\<rparr>" None]
  by (simp add: fst_formatScores formatGame_status statusSwitch_def sortedGamesList_def
      filteredGamesList_def array_sort_def celticsAtLakers_def mkGame_def utcTime_def
      two_digits_def js_eval)

subsection \<open>Period labels\<close>

lemma js_rem_nonneg: "0 \<le> a \<Longrightarrow> 0 < b \<Longrightarrow> js_rem a b = a mod b"
  by (cases "a = 0") (simp_all add: js_rem_def)

lemma getOrdinal_spec:
  assumes "0 \<le> p"
  shows "\<exists>sfx. getOrdinal p = string_of_int p @ ''<sup>'' @ sfx @ ''</sup>'' \<and>
           map lower_char sfx = spec_ordinal_suffix p"
proof -
  have r: "js_rem p 10 = p mod 10" "js_rem p 100 = p mod 100"
    using assms by (simp_all add: js_rem_nonneg)
  show ?thesis
    unfolding getOrdinal_def spec_ordinal_suffix_def Let_def r
    by (simp add: lower_char_def)
qed

text \<open>
  C9. On NCAAF, NBA and NCAAM, \<open>getPeriod\<close> gives "OT" for period 5, the period minus 4
  followed by "OT" for a period above 5, and the label of \<open>getOrdinal\<close> for periods 1
  to 4; on every other league it gives the label of \<open>getOrdinal\<close> for every period.
  For a period that is not negative this label is the number followed by the English
  ordinal suffix of the specification, in capitals and inside superscript markup.
\<close>

theorem getPeriod_labels:
  "(league \<in> {''NCAAF'', ''NBA'', ''NCAAM''} \<longrightarrow> getPeriod league 5 = ''OT'') \<and>
   (league \<in> {''NCAAF'', ''NBA'', ''NCAAM''} \<and> p > 5 \<longrightarrow>
      getPeriod league p = string_of_int (p - 4) @ ''OT'') \<and>
   (league \<in> {''NCAAF'', ''NBA'', ''NCAAM''} \<and> 1 \<le> p \<and> p \<le> 4 \<longrightarrow>
      getPeriod league p = getOrdinal p) \<and>
   (league \<notin> {''NCAAF'', ''NBA'', ''NCAAM''} \<longrightarrow> getPeriod league p = getOrdinal p) \<and>
   (0 \<le> p \<longrightarrow>
      (\<exists>sfx. getOrdinal p = string_of_int p @ ''<sup>'' @ sfx @ ''</sup>'' \<and>
         map lower_char sfx = spec_ordinal_suffix p))"
proof -
  have a: "(league \<in> {''NCAAF'', ''NBA'', ''NCAAM''} \<longrightarrow> getPeriod league 5 = ''OT'') \<and>
   (league \<in> {''NCAAF'', ''NBA'', ''NCAAM''} \<and> p > 5 \<longrightarrow>
      getPeriod league p = string_of_int (p - 4) @ ''OT'') \<and>
   (league \<in> {''NCAAF'', ''NBA'', ''NCAAM''} \<and> 1 \<le> p \<and> p \<le> 4 \<longrightarrow>
      getPeriod league p = getOrdinal p) \<and>
   (league \<notin> {''NCAAF'', ''NBA'', ''NCAAM''} \<longrightarrow> getPeriod league p = getOrdinal p)"
    by (auto simp: getPeriod_def)
  with getOrdinal_spec [of p] show ?thesis by blast
qed

theorem getPeriod_labels_witness:
  "''NBA'' \<in> {''NCAAF'', ''NBA'', ''NCAAM''} \<and> ''NHL'' \<notin> {''NCAAF'', ''NBA'', ''NCAAM''} \<and>
   getPeriod ''NBA'' 5 = ''OT'' \<and> getPeriod ''NBA'' 6 = ''2OT'' \<and>
   getPeriod ''NBA'' 3 = ''3<sup>RD</sup>'' \<and> getPeriod ''NHL'' 5 = ''5<sup>TH</sup>'' \<and>
   getOrdinal 21 = ''21<sup>ST</sup>'' \<and> getOrdinal 11 = ''11<sup>TH</sup>'' \<and>
   getOrdinal 2 = ''2<sup>ND</sup>'' \<and> spec_ordinal_suffix 3 = ''rd''"
  using getPeriod_labels [of "''NBA''" 6] getPeriod_labels [of "''NBA''" 3]
    getPeriod_labels [of "''NHL''" 5]
  by (simp add: getOrdinal_def spec_ordinal_suffix_def js_eval)

subsection \<open>The request\<close>

text \<open>
  C4, as the code has it. For a league other than NCAAF, NBA and NCAAM, \<open>getLeaguePath\<close>
  is null, and \<open>getScores\<close> signals nothing: it issues the GET request whose URL has the
  text "null" where the league path belongs.
\<close>

theorem unsupported_league_request:
  "league \<notin> {''NCAAF'', ''NBA'', ''NCAAM''} \<Longrightarrow>
     getLeaguePath league = None \<and>
     getScores_request league day =
       \<lparr> url = ''http://site.api.espn.com/apis/site/v2/sports/null/scoreboard?dates='' @
               day @ ''&limit=200'', method = ''GET'' \<rparr>"
  by (simp add: getLeaguePath_def getScores_request_def concat_operand_def)

theorem unsupported_league_request_witness:
  "''MLB'' \<notin> {''NCAAF'', ''NBA'', ''NCAAM''} \<and>
   getLeaguePath ''MLB'' = None \<and>
   url (getScores_request ''MLB'' ''20181103'') =
     ''http://site.api.espn.com/apis/site/v2/sports/null/scoreboard?dates=20181103&limit=200''"
  using unsupported_league_request [of "''MLB''" "''20181103''"] by simp

text \<open>
  C4, as the specification has it, fails: for the league "NHL" a request is built, and
  its URL is malformed.
\<close>

theorem unsupported_league_counterexample:
  "''NHL'' \<notin> {''NCAAF'', ''NBA'', ''NCAAM''} \<and>
   getScores_request ''NHL'' ''20181103'' =
     \<lparr> url = ''http://site.api.espn.com/apis/site/v2/sports/null/scoreboard?dates='' @
               ''20181103&limit=200'', method = ''GET'' \<rparr>"
  by (simp add: getLeaguePath_def getScores_request_def concat_operand_def)

subsection \<open>Home and visitor, and the abbreviation override\<close>

text \<open>
  C1, as the code has it. The override rewrites one side at most. The emitted home
  code is "SDSU " when the home competitor meets the condition (league NCAAF, code
  "SDSU", a location that contains "South Dakota State"), and the competitor's own code
  otherwise. The emitted visitor code is "SDSU " when the visitor meets the condition
  and the home competitor does not, and the competitor's own code otherwise.
\<close>

theorem sdsu_override_one_side:
  "hTeam (fst (formatGame lt league g)) =
     (if isFcsSDSU league (hTeamData g) then ''SDSU ''
      else abbreviation (team (hTeamData g))) \<and>
   vTeam (fst (formatGame lt league g)) =
     (if \<not> isFcsSDSU league (hTeamData g) \<and> isFcsSDSU league (vTeamData g) then ''SDSU ''
      else abbreviation (team (vTeamData g)))"
  by (simp only: formatGame_hTeam formatGame_vTeam overrideSDSU_home overrideSDSU_visitor)

theorem sdsu_override_one_side_witness:
  "isFcsSDSU ''NCAAF'' (hTeamData jackrabbitsHostBison) \<and>
   hTeam (fst (formatGame utcTime ''NCAAF'' jackrabbitsHostBison)) = ''SDSU '' \<and>
   vTeam (fst (formatGame utcTime ''NCAAF'' jackrabbitsHostBison)) = ''NDSU'' \<and>
   \<not> isFcsSDSU ''NBA'' (hTeamData jackrabbitsHostBison) \<and>
   hTeam (fst (formatGame utcTime ''NBA'' jackrabbitsHostBison)) = ''SDSU''"
  using sdsu_override_one_side [of utcTime "''NCAAF''" jackrabbitsHostBison]
    sdsu_override_one_side [of utcTime "''NBA''" jackrabbitsHostBison]
  by (simp add: isFcsSDSU_def hTeamData_def vTeamData_def jackrabbitsHostBison_def mkGame_def
      mkCompetitor_def jackrabbits_def bison_def js_eval)

text \<open>
  C1, as the specification has it, fails: in an NCAAF game where both competitors meet
  the condition, the visitor's code is emitted as it is.
\<close>

theorem sdsu_override_counterexample:
  "isFcsSDSU ''NCAAF'' (hTeamData sdsuBothSides) \<and>
   isFcsSDSU ''NCAAF'' (vTeamData sdsuBothSides) \<and>
   hTeam (fst (formatGame utcTime ''NCAAF'' sdsuBothSides)) = ''SDSU '' \<and>
   vTeam (fst (formatGame utcTime ''NCAAF'' sdsuBothSides)) = ''SDSU'' \<and>
   vTeam (fst (formatGame utcTime ''NCAAF'' sdsuBothSides)) \<noteq> ''SDSU ''"
  by (simp add: formatGame_hTeam formatGame_vTeam overrideSDSU_home overrideSDSU_visitor
      isFcsSDSU_def hTeamData_def vTeamData_def sdsuBothSides_def mkGame_def
      mkCompetitor_def jackrabbits_def js_eval)





subsection \<open>The filter and the order of the output\<close>

text \<open>
  C6. With a team filter, the games kept are exactly the games of the feed in which the
  code of one of the two competitors is in the filter; with no filter, every game of
  the feed is kept. The sort only reorders the games kept, and the output has one
  formatted game for each of them.
\<close>

theorem filter_by_teams:
  "filteredGamesList data (Some ts) =
     filter (\<lambda>g. abbreviation (team (competitor0 g)) \<in> set ts \<or>
                 abbreviation (team (competitor1 g)) \<in> set ts) (events data) \<and>
   filteredGamesList data None = events data \<and>
   mset (sortedGamesList data teams) = mset (filteredGamesList data teams) \<and>
   fst (formatScores lt league data teams) =
     map (\<lambda>g. fst (formatGame lt league g)) (sortedGamesList data teams)"
proof -
  have "teamsInclude ts = (\<lambda>g. abbreviation (team (competitor0 g)) \<in> set ts \<or>
                 abbreviation (team (competitor1 g)) \<in> set ts)"
    by (intro ext) (rule teamsInclude_iff)
  then have "filteredGamesList data (Some ts) =
     filter (\<lambda>g. abbreviation (team (competitor0 g)) \<in> set ts \<or>
                 abbreviation (team (competitor1 g)) \<in> set ts) (events data)"
    by (simp add: filteredGamesList_def)
  moreover have "filteredGamesList data None = events data"
    by (simp add: filteredGamesList_def)
  moreover have "mset (sortedGamesList data teams) = mset (filteredGamesList data teams)"
    by (simp add: sortedGamesList_def mset_array_sort)
  ultimately show ?thesis using fst_formatScores by blast
qed

theorem filter_by_teams_witness:
  "filteredGamesList \<lparr>events = [celticsAtLakers ''2'' 3, jackrabbitsHostBison]\<rparr> (Some [''NDSU''])
     = [jackrabbitsHostBison] \<and>
   filteredGamesList \<lparr>events = [celticsAtLakers ''2'' 3, jackrabbitsHostBison]\<rparr> None
     = [celticsAtLakers ''2'' 3, jackrabbitsHostBison] \<and>
   map hTeam (fst (formatScores utcTime ''NBA''
       \<lparr>events = [celticsAtLakers ''2'' 3, jackrabbitsHostBison]\<rparr> (Some [''NDSU''])))
     = [''SDSU'']"
  using filter_by_teams [of "\<lparr>events = [celticsAtLakers ''2'' 3, jackrabbitsHostBison]\<rparr>"
      "[''NDSU'']" "Some [''NDSU'']" utcTime "''NBA''"]
  by (simp add: sortedGamesList_def array_sort_def formatGame_hTeam overrideSDSU_home
      isFcsSDSU_def hTeamData_def celticsAtLakers_def jackrabbitsHostBison_def mkGame_def
      mkCompetitor_def celtics_def lakers_def jackrabbits_def bison_def)

text \<open>
  C5, as the code has it. The games are emitted in the order of the sorted list, a
  rearrangement of the games kept by the filter. In the sorted list a game comes before
  another only if it starts earlier, or starts at the same time and the code of its
  visiting team, as the feed has it when the sort runs, is not greater in the
  lexicographic order. The sort runs before the override of C1: when no competitor of
  the feed meets the condition of the override, the emitted visitor codes of games
  with equal start times are in ascending order too.
\<close>

theorem output_order:
  "sorted_wrt
     (\<lambda>a b. date a < date b \<or>
        (date a = date b \<and>
         abbreviation (team (vTeamData a)) \<le> abbreviation (team (vTeamData b))))
     (sortedGamesList data teams) \<and>
   mset (sortedGamesList data teams) = mset (filteredGamesList data teams) \<and>
   fst (formatScores lt league data teams) =
     map (\<lambda>g. fst (formatGame lt league g)) (sortedGamesList data teams) \<and>
   (\<not> sdsuOverrideApplies league data \<longrightarrow>
      sorted_wrt
        (\<lambda>(a, fa) (b, fb). date a < date b \<or> (date a = date b \<and> vTeam fa \<le> vTeam fb))
        (zip (sortedGamesList data teams) (fst (formatScores lt league data teams))))"
proof -
  let ?raw = "\<lambda>a b. date a < date b \<or>
        (date a = date b \<and>
         abbreviation (team (vTeamData a)) \<le> abbreviation (team (vTeamData b)))"
  have raw: "sorted_wrt ?raw (sortedGamesList data teams)"
    using sorted_array_sort [of "filteredGamesList data teams"]
    by (simp add: sortedGamesList_def awayTeamCode_visitor)
  have perm: "mset (sortedGamesList data teams) = mset (filteredGamesList data teams)"
    by (simp add: sortedGamesList_def mset_array_sort)
  have emitted: "sorted_wrt
        (\<lambda>(a, fa) (b, fb). date a < date b \<or> (date a = date b \<and> vTeam fa \<le> vTeam fb))
        (zip (sortedGamesList data teams) (fst (formatScores lt league data teams)))"
    if n: "\<not> sdsuOverrideApplies league data"
  proof -
    have sub: "set (sortedGamesList data teams) \<subseteq> set (events data)"
      by (auto simp: sortedGamesList_def set_array_sort filteredGamesList_def
          split: option.splits)
    have v: "vTeam (fst (formatGame lt league g)) = abbreviation (team (vTeamData g))"
      if "g \<in> set (sortedGamesList data teams)" for g
    proof -
      from that sub have "g \<in> set (events data)" by blast
      with n have "\<not> isFcsSDSU league (competitor0 g)" "\<not> isFcsSDSU league (competitor1 g)"
        by (auto simp: sdsuOverrideApplies_def list_ex_iff)
      then show ?thesis by (rule formatGame_vTeam_unchanged)
    qed
    have z: "zip (sortedGamesList data teams) (fst (formatScores lt league data teams)) =
             map (\<lambda>g. (g, fst (formatGame lt league g))) (sortedGamesList data teams)"
      by (simp add: fst_formatScores zip_map2 zip_same_conv_map)
    have "sorted_wrt
            (\<lambda>a b. date a < date b \<or>
               (date a = date b \<and>
                vTeam (fst (formatGame lt league a)) \<le> vTeam (fst (formatGame lt league b))))
            (sortedGamesList data teams)"
      using raw by (rule sorted_wrt_mono_rel [rotated]) (simp add: v)
    then show ?thesis by (simp add: z sorted_wrt_map)
  qed
  from raw perm emitted fst_formatScores show ?thesis by blast
qed

theorem output_order_witness:
  "\<not> sdsuOverrideApplies ''NBA''
      \<lparr>events = [bisonAtJackrabbits, celticsAtLakers ''2'' 3, lakersAtCeltics ''3'' 4]\<rparr> \<and>
   date bisonAtJackrabbits = date (celticsAtLakers ''2'' 3) \<and>
   sortedGamesList
     \<lparr>events = [bisonAtJackrabbits, celticsAtLakers ''2'' 3, lakersAtCeltics ''3'' 4]\<rparr> None =
     [lakersAtCeltics ''3'' 4, celticsAtLakers ''2'' 3, bisonAtJackrabbits] \<and>
   map vTeam (fst (formatScores utcTime ''NBA''
     \<lparr>events = [bisonAtJackrabbits, celticsAtLakers ''2'' 3, lakersAtCeltics ''3'' 4]\<rparr> None)) =
     [''LAL'', ''BOS'', ''NDSU'']"
proof -
  let ?d = "\<lparr>events = [bisonAtJackrabbits, celticsAtLakers ''2'' 3, lakersAtCeltics ''3'' 4]\<rparr>"
  have n: "\<not> sdsuOverrideApplies ''NBA'' ?d"
    by (simp add: sdsuOverrideApplies_def isFcsSDSU_def)
  have t: "date bisonAtJackrabbits = date (celticsAtLakers ''2'' 3)"
    by (simp add: bisonAtJackrabbits_def celticsAtLakers_def mkGame_def)
  have s: "sortedGamesList ?d None =
     [lakersAtCeltics ''3'' 4, celticsAtLakers ''2'' 3, bisonAtJackrabbits]"
    by (simp add: sortedGamesList_def filteredGamesList_def array_sort_def compareGames_def
        awayTeamCode_def celticsAtLakers_def lakersAtCeltics_def bisonAtJackrabbits_def
        mkGame_def mkCompetitor_def celtics_def lakers_def jackrabbits_def bison_def)
  have v: "map (\<lambda>g. vTeam (fst (formatGame utcTime ''NBA'' g)))
      [lakersAtCeltics ''3'' 4, celticsAtLakers ''2'' 3, bisonAtJackrabbits] =
     [''LAL'', ''BOS'', ''NDSU'']"
    by (simp add: formatGame_vTeam overrideSDSU_visitor isFcsSDSU_def vTeamData_def
        celticsAtLakers_def lakersAtCeltics_def bisonAtJackrabbits_def
        mkGame_def mkCompetitor_def celtics_def lakers_def jackrabbits_def bison_def)
  show ?thesis
    using output_order [of ?d None utcTime "''NBA''"] n t s v
    by (simp add: comp_def)
qed

text \<open>
  C5, as the specification has it, fails: two NCAAF games start at the same time, the
  visitor of the first is South Dakota State and the visitor of the second San Diego
  State. Both have the code "SDSU" when the sort runs, so the games keep their order,
  and the emitted visitor codes are "SDSU " followed by "SDSU": not ascending.
\<close>

theorem output_order_counterexample:
  "date jackrabbitsAtBison = date aztecsAtBison \<and>
   map vTeam (fst (formatScores utcTime ''NCAAF''
     \<lparr>events = [jackrabbitsAtBison, aztecsAtBison]\<rparr> None)) = [''SDSU '', ''SDSU''] \<and>
   \<not> ''SDSU '' \<le> ''SDSU''"
  by (simp add: list_eval game_eval js_eval jackrabbitsAtBison_def aztecsAtBison_def mkGame_def
      mkCompetitor_def jackrabbits_def aztecs_def bison_def)


subsection \<open>Calling formatScores twice\<close>

lemma no_override_unchanged:
  assumes "\<not> sdsuOverrideApplies league data" and "g \<in> set (events data)"
  shows "snd (formatGame lt league g) = g"
proof -
  from assms have "\<not> isFcsSDSU league (competitor0 g)" "\<not> isFcsSDSU league (competitor1 g)"
    by (auto simp: sdsuOverrideApplies_def list_ex_iff)
  then show ?thesis by (rule formatGame_unchanged)
qed

lemma snd_formatScores_filtered:
  assumes "\<not> sdsuOverrideApplies league data"
  shows "snd (formatScores lt league data (Some ts)) = data"
proof -
  have "map (\<lambda>g. if teamsInclude ts g then snd (formatGame lt league g) else g) (events data) =
        events data"
    using assms by (intro map_idI) (simp add: no_override_unchanged)
  then show ?thesis by (simp add: formatScores_def)
qed

lemma snd_formatScores_all:
  assumes "\<not> sdsuOverrideApplies league data"
  shows "snd (formatScores lt league data None) =
           data\<lparr>events := array_sort compareGames (events data)\<rparr>"
proof -
  have "map (\<lambda>g. snd (formatGame lt league g)) (array_sort compareGames (events data)) =
        array_sort compareGames (events data)"
    using assms by (intro map_idI) (simp add: no_override_unchanged set_array_sort)
  then show ?thesis
    by (simp add: formatScores_def sortedGamesList_def filteredGamesList_def)
qed

text \<open>
  C3, as the code has it. \<open>formatScores\<close> writes to \<open>data\<close>: it sorts the events in
  place when there is no team filter, and the override assigns "SDSU " to a competitor
  of the feed. When no competitor of the feed meets the condition of the override
  (so for every league other than NCAAF), a second call on the same \<open>data\<close>, as the first
  call left it, returns the list the first call returned, and leaves \<open>data\<close> as it
  found it.
\<close>

theorem formatScores_twice:
  assumes "\<not> sdsuOverrideApplies league data"
  shows "fst (formatScores lt league (snd (formatScores lt league data teams)) teams) =
           fst (formatScores lt league data teams) \<and>
         snd (formatScores lt league (snd (formatScores lt league data teams)) teams) =
           snd (formatScores lt league data teams)"
proof (cases teams)
  case (Some ts)
  with assms show ?thesis by (simp add: snd_formatScores_filtered)
next
  case None
  let ?d = "data\<lparr>events := array_sort compareGames (events data)\<rparr>"
  have d: "snd (formatScores lt league data None) = ?d"
    using assms by (rule snd_formatScores_all)
  have n: "\<not> sdsuOverrideApplies league ?d"
    using assms by (simp add: sdsuOverrideApplies_def list_ex_iff set_array_sort)
  have s: "sortedGamesList ?d None = sortedGamesList data None"
    by (simp add: sortedGamesList_def filteredGamesList_def array_sort_idem)
  have "fst (formatScores lt league ?d None) = fst (formatScores lt league data None)"
    by (simp only: fst_formatScores s)
  moreover have "snd (formatScores lt league ?d None) = ?d"
    using snd_formatScores_all [OF n, of lt] by (simp add: array_sort_idem)
  ultimately show ?thesis using None d by simp
qed

theorem formatScores_twice_witness:
  "\<not> sdsuOverrideApplies ''NBA'' \<lparr>events = [celticsAtLakers ''2'' 3, lakersAtCeltics ''3'' 4]\<rparr> \<and>
   fst (formatScores utcTime ''NBA''
         (snd (formatScores utcTime ''NBA''
                \<lparr>events = [celticsAtLakers ''2'' 3, lakersAtCeltics ''3'' 4]\<rparr> None)) None) =
   fst (formatScores utcTime ''NBA''
         \<lparr>events = [celticsAtLakers ''2'' 3, lakersAtCeltics ''3'' 4]\<rparr> None) \<and>
   events (snd (formatScores utcTime ''NBA''
                \<lparr>events = [celticsAtLakers ''2'' 3, lakersAtCeltics ''3'' 4]\<rparr> None)) =
     [lakersAtCeltics ''3'' 4, celticsAtLakers ''2'' 3]"
proof -
  have n: "\<not> sdsuOverrideApplies ''NBA''
             \<lparr>events = [celticsAtLakers ''2'' 3, lakersAtCeltics ''3'' 4]\<rparr>"
    by (simp add: sdsuOverrideApplies_def isFcsSDSU_def)
  have e: "events (snd (formatScores utcTime ''NBA''
                \<lparr>events = [celticsAtLakers ''2'' 3, lakersAtCeltics ''3'' 4]\<rparr> None)) =
     [lakersAtCeltics ''3'' 4, celticsAtLakers ''2'' 3]"
    by (subst snd_formatScores_all [OF n])
      (simp add: array_sort_def compareGames_def celticsAtLakers_def lakersAtCeltics_def
        mkGame_def)
  from formatScores_twice [OF n, of utcTime None] n e show ?thesis by simp
qed

text \<open>
  C3, as the specification has it, fails: for the league NCAAF and the filter "SDSU",
  the first call emits the game of South Dakota State and writes "SDSU " into the feed;
  the second call, on the same feed, filters the game out and returns the empty list.
\<close>

theorem formatScores_twice_counterexample:
  "map hTeam (fst (formatScores utcTime ''NCAAF'' \<lparr>events = [jackrabbitsHostBison]\<rparr>
                     (Some [''SDSU'']))) = [''SDSU ''] \<and>
   fst (formatScores utcTime ''NCAAF''
         (snd (formatScores utcTime ''NCAAF'' \<lparr>events = [jackrabbitsHostBison]\<rparr>
                (Some [''SDSU''])))
         (Some [''SDSU''])) = [] \<and>
   fst (formatScores utcTime ''NCAAF''
         (snd (formatScores utcTime ''NCAAF'' \<lparr>events = [jackrabbitsHostBison]\<rparr>
                (Some [''SDSU''])))
         (Some [''SDSU''])) \<noteq>
   fst (formatScores utcTime ''NCAAF'' \<lparr>events = [jackrabbitsHostBison]\<rparr> (Some [''SDSU'']))"
  by (simp add: list_eval game_eval js_eval jackrabbitsHostBison_def mkGame_def
      mkCompetitor_def jackrabbits_def bison_def)

end
